theory Spec2Isabelle
  imports Complex_Main
begin

section \<open>The file browser component (src/app/app.component.ts)\<close>

text \<open>
  The component is a class with seven mutable fields and a handful of methods. Every
  method either changes fields, or sends an HTTP request and subscribes two callbacks
  (\<open>next\<close> and \<open>error\<close>) that run later, when the response arrives. The model is
  explicit state passing: a method is a function from the world to the world, and each
  callback of the source is a function of its own, named after the method that
  subscribes it (\<open>loadItems_next\<close>, \<open>loadItems_error\<close>, ...). The requests that
  were sent are kept in a log, in the order in which they were sent.

  Strings are HOL strings, whose characters are read as UTF-16 code units below 256.
\<close>

subsection \<open>Data\<close>

type_synonym ItemId = string

text \<open>
  \<open>FileItem\<close> and \<open>PathItem\<close> both have fields \<open>id\<close>, \<open>name\<close> and \<open>folder\<close>;
  the fields of the first carry the prefix \<open>f_\<close>, those of the second \<open>p_\<close>. An optional
  field (\<open>filePath?\<close>) or a nullable one (\<open>parentId\<close>) is an \<open>option\<close>. The byte size is
  an integer: the model covers integer byte counts of magnitude below \<open>2 ^ 53\<close>, on which
  the arithmetic of \<open>formatSize\<close> is exact in IEEE doubles.
\<close>

record FileItem =
  f_id :: ItemId
  f_parentId :: "ItemId option"
  f_name :: string
  f_folder :: bool
  f_creation :: string
  f_modification :: string
  f_filePath :: "string option"
  f_mimeType :: "string option"
  f_size :: "int option"

record ItemsResponse =
  r_items :: "FileItem list option"

record PathItem =
  p_id :: string
  p_name :: string
  p_folder :: bool

text \<open>The response type of the path request, written inline in \<open>loadPath\<close>.\<close>

record PathResponse =
  r_path :: "PathItem list option"

subsection \<open>formatSize\<close>

definition units :: "string list" where
  "units = [''B'', ''KB'', ''MB'', ''GB'']"

text \<open>The \<open>while\<close> loop of \<open>formatSize\<close>, on the pair of its two variables.\<close>

function formatSize_loop :: "rat \<Rightarrow> nat \<Rightarrow> rat \<times> nat" where
  "formatSize_loop val unitIndex =
     (if val \<ge> 1024 \<and> unitIndex < length units - 1
      then formatSize_loop (val / 1024) (unitIndex + 1)
      else (val, unitIndex))"
  by pat_completeness auto
termination
  by (relation "measure (\<lambda>(val, unitIndex). 3 - unitIndex)") (auto simp: units_def)

declare formatSize_loop.simps [simp del]

definition digit_char :: "nat \<Rightarrow> char" where
  "digit_char d = ''0123456789'' ! d"

text \<open>The decimal digits of a natural number, without leading zeros (\<open>0\<close> is \<open>''0''\<close>).\<close>

fun show_nat :: "nat \<Rightarrow> string" where
  "show_nat n =
     (if n < 10 then [digit_char n] else show_nat (n div 10) @ [digit_char (n mod 10)])"

declare show_nat.simps [simp del]

text \<open>
  \<open>Number.prototype.toFixed\<close> as ECMAScript defines it, for a finite number below
  \<open>10 ^ 21\<close> in magnitude, on its exact value: the integer \<open>n\<close> that makes
  \<open>n / 10 ^ f\<close> closest to \<open>x\<close>, the larger one of two; its digits, padded with zeros
  to \<open>f + 1\<close> characters; a point before the last \<open>f\<close> digits when \<open>f\<close> is not zero.
\<close>

definition toFixed_digits :: "rat \<Rightarrow> nat \<Rightarrow> string" where
  "toFixed_digits x f =
     (let n = nat \<lfloor>x * 10 ^ f + 1 / 2\<rfloor>;
          m = show_nat n
      in if f = 0 then m
         else
           let m' = (if length m \<le> f then replicate (f + 1 - length m) (CHR ''0'') @ m else m);
               k = length m'
           in take (k - f) m' @ ''.'' @ drop (k - f) m')"

definition toFixed :: "rat \<Rightarrow> nat \<Rightarrow> string" where
  "toFixed x f = (if x < 0 then ''-'' @ toFixed_digits (- x) f else toFixed_digits x f)"

text \<open>
  \<open>!size\<close> holds for a missing size and for zero. The template literal joins the number,
  a space and the unit.
\<close>

definition formatSize :: "int option \<Rightarrow> string" where
  "formatSize size_opt =
     (case size_opt of
        None \<Rightarrow> ''-''
      | Some n \<Rightarrow>
          if n = 0 then ''-''
          else
            (case formatSize_loop (of_int n) 0 of
               (val, unitIndex) \<Rightarrow>
                 toFixed val (if val \<ge> 10 \<or> unitIndex = 0 then 0 else 1)
                   @ '' '' @ units ! unitIndex))"

subsection \<open>The component and its surroundings\<close>

text \<open>
  The body of an error response (\<open>error.error\<close>) is untyped in the source. The model
  gives it the two fields \<open>handleError\<close> reads; a body that is missing, or is not an
  object with these fields, has \<open>None\<close> there.
\<close>

record ErrorBody =
  desc :: "string option"
  message :: "string option"

record HttpErrorResponse =
  error :: "ErrorBody option"

type_synonym Blob = "nat list"

record File =
  file_name :: string
  file_data :: Blob

text \<open>
  The file input an upload event comes from. \<open>files\<close> is \<open>None\<close> for \<open>null\<close>;
  \<open>input_value\<close> is the element's \<open>value\<close>.
\<close>

record HTMLInputElement =
  files :: "File list option"
  input_value :: string

text \<open>
  The requests the component sends: \<open>GET /api/items\<close> with the query parameters,
  \<open>GET /api/items/id/path\<close>, \<open>GET /api/items/id\<close> as a blob, \<open>POST /api/items\<close> with
  form data (the file and, when appended, the parent), \<open>POST /api/items\<close> with a
  JSON body (name, folder, parentId) and \<open>DELETE /api/items/id\<close>.
\<close>

datatype HttpRequest =
    GetItems "ItemId option"
  | GetItemPath ItemId
  | GetItemBlob ItemId
  | PostFormData File "ItemId option"
  | PostBody string bool "ItemId option"
  | DeleteItem ItemId

text \<open>What the \<open>next\<close> callback of a download does to the document.\<close>

datatype DomAction =
    CreateObjectURL Blob
  | ClickLink Blob string
  | RevokeObjectURL Blob

record AppComponent =
  items :: "FileItem list"
  path :: "PathItem list"
  currentParentId :: "ItemId option"
  loading :: bool
  errorMessage :: string
  newFolderName :: string
  uploading :: bool

text \<open>
  The world is the component together with what it acts on: the log of requests sent,
  the input elements (a store from addresses to elements, since the upload callback
  writes to the element the event came from) and the log of document actions.
\<close>

record World = AppComponent +
  http :: "HttpRequest list"
  inputs :: "nat \<Rightarrow> HTMLInputElement"
  dom :: "DomAction list"

definition rootSegment :: PathItem where
  "rootSegment = \<lparr>p_id = ''root'', p_name = ''Root'', p_folder = True\<rparr>"

text \<open>The component as its field initialisers leave it, before \<open>ngOnInit\<close>.\<close>

definition init :: World where
  "init = \<lparr>items = [], path = [rootSegment], currentParentId = None, loading = False,
            errorMessage = [], newFolderName = [], uploading = False,
            http = [], inputs = (\<lambda>a. \<lparr>files = None, input_value = []\<rparr>), dom = []\<rparr>"

text \<open>JavaScript truthiness of a string or \<open>null\<close>/\<open>undefined\<close>: the empty string is falsy.\<close>

definition truthy :: "string option \<Rightarrow> bool" where
  "truthy v = (case v of None \<Rightarrow> False | Some s \<Rightarrow> s \<noteq> [])"

text \<open>
  \<open>String.prototype.trim\<close> on code units below 256: it removes tab, line feed,
  vertical tab, form feed, carriage return, space and the no-break space from both ends.
\<close>

definition is_white :: "char \<Rightarrow> bool" where
  "is_white c = (of_char c \<in> {9, 10, 11, 12, 13, 32, 160 :: nat})"

definition trim :: "string \<Rightarrow> string" where
  "trim s = rev (dropWhile is_white (rev (dropWhile is_white s)))"

subsection \<open>Methods and callbacks\<close>

text \<open>
  \<open>(error.error && (error.error.desc || error.error.message)) || ''\<close>: the first
  truthy one of \<open>desc\<close> and \<open>message\<close>, else the empty string.
\<close>

definition apiMessage :: "HttpErrorResponse \<Rightarrow> string" where
  "apiMessage e =
     (case error e of
        None \<Rightarrow> []
      | Some b \<Rightarrow>
          if truthy (desc b) then the (desc b)
          else if truthy (message b) then the (message b)
          else [])"

definition handleError :: "HttpErrorResponse \<Rightarrow> string \<Rightarrow> World \<Rightarrow> World" where
  "handleError e fallbackMessage w =
     w\<lparr>errorMessage :=
          (if apiMessage e \<noteq> [] then fallbackMessage @ '' '' @ apiMessage e
           else fallbackMessage),
       loading := False\<rparr>"

definition loadPath :: "World \<Rightarrow> World" where
  "loadPath w =
     (if \<not> truthy (currentParentId w) then w\<lparr>path := [rootSegment]\<rparr>
      else w\<lparr>http := http w @ [GetItemPath (the (currentParentId w))]\<rparr>)"

definition loadPath_next :: "PathResponse \<Rightarrow> World \<Rightarrow> World" where
  "loadPath_next response w =
     w\<lparr>path := (case r_path response of None \<Rightarrow> [rootSegment] | Some ps \<Rightarrow> ps)\<rparr>"

definition loadPath_error :: "HttpErrorResponse \<Rightarrow> World \<Rightarrow> World" where
  "loadPath_error e w = handleError e ''Unable to load path.'' w"

definition loadItems :: "ItemId option \<Rightarrow> World \<Rightarrow> World" where
  "loadItems parentId w =
     w\<lparr>loading := True, errorMessage := [], currentParentId := parentId,
       http := http w @ [GetItems (if truthy parentId then parentId else None)]\<rparr>"

definition loadItems_next :: "ItemsResponse \<Rightarrow> World \<Rightarrow> World" where
  "loadItems_next response w =
     loadPath (w\<lparr>items := (case r_items response of None \<Rightarrow> [] | Some xs \<Rightarrow> xs),
                 loading := False\<rparr>)"

definition loadItems_error :: "HttpErrorResponse \<Rightarrow> World \<Rightarrow> World" where
  "loadItems_error e w = handleError e ''Unable to load items.'' w"

definition ngOnInit :: "World \<Rightarrow> World" where
  "ngOnInit w = loadItems None w"

definition navigateTo :: "PathItem \<Rightarrow> World \<Rightarrow> World" where
  "navigateTo item w =
     (if p_id item = ''root'' then loadItems None w else loadItems (Some (p_id item)) w)"

definition downloadItem :: "FileItem \<Rightarrow> World \<Rightarrow> World" where
  "downloadItem item w =
     w\<lparr>errorMessage := [], http := http w @ [GetItemBlob (f_id item)]\<rparr>"

text \<open>The callback closes over \<open>item\<close>, whose name becomes the suggested file name.\<close>

definition downloadItem_next :: "FileItem \<Rightarrow> Blob \<Rightarrow> World \<Rightarrow> World" where
  "downloadItem_next item blob w =
     w\<lparr>dom := dom w @ [CreateObjectURL blob, ClickLink blob (f_name item),
                        RevokeObjectURL blob]\<rparr>"

definition downloadItem_error :: "HttpErrorResponse \<Rightarrow> World \<Rightarrow> World" where
  "downloadItem_error e w = handleError e ''Unable to download file.'' w"

definition openItem :: "FileItem \<Rightarrow> World \<Rightarrow> World" where
  "openItem item w = (if f_folder item then loadItems (Some (f_id item)) w else downloadItem item w)"

text \<open>
  \<open>input.files?.[0]\<close>: undefined when \<open>files\<close> is \<open>null\<close> or empty. The argument is
  the address of the event's target.
\<close>

definition first_file :: "HTMLInputElement \<Rightarrow> File option" where
  "first_file el = (case files el of None \<Rightarrow> None | Some [] \<Rightarrow> None | Some (f # fs) \<Rightarrow> Some f)"

definition onUploadChange :: "nat \<Rightarrow> World \<Rightarrow> World" where
  "onUploadChange input w =
     (case first_file (inputs w input) of
        None \<Rightarrow> w
      | Some file \<Rightarrow>
          w\<lparr>uploading := True, errorMessage := [],
            http := http w @
              [PostFormData file (if truthy (currentParentId w) then currentParentId w else None)]\<rparr>)"

text \<open>The callback closes over \<open>input\<close> and assigns its \<open>value\<close>.\<close>

definition onUploadChange_next :: "nat \<Rightarrow> World \<Rightarrow> World" where
  "onUploadChange_next input w =
     (let w1 = w\<lparr>uploading := False\<rparr>;
          w2 = w1\<lparr>inputs := (inputs w1)(input := (inputs w1 input)\<lparr>input_value := []\<rparr>)\<rparr>
      in loadItems (currentParentId w2) w2)"

definition onUploadChange_error :: "HttpErrorResponse \<Rightarrow> World \<Rightarrow> World" where
  "onUploadChange_error e w = handleError e ''Unable to upload file.'' (w\<lparr>uploading := False\<rparr>)"

definition createFolder :: "World \<Rightarrow> World" where
  "createFolder w =
     (let trimmedName = trim (newFolderName w)
      in if trimmedName = [] then w
         else w\<lparr>errorMessage := [],
                http := http w @ [PostBody trimmedName True (currentParentId w)]\<rparr>)"

definition createFolder_next :: "World \<Rightarrow> World" where
  "createFolder_next w =
     (let w1 = w\<lparr>newFolderName := []\<rparr> in loadItems (currentParentId w1) w1)"

definition createFolder_error :: "HttpErrorResponse \<Rightarrow> World \<Rightarrow> World" where
  "createFolder_error e w = handleError e ''Unable to create folder.'' w"

definition deleteItem :: "FileItem \<Rightarrow> World \<Rightarrow> World" where
  "deleteItem item w = w\<lparr>errorMessage := [], http := http w @ [DeleteItem (f_id item)]\<rparr>"

definition deleteItem_next :: "World \<Rightarrow> World" where
  "deleteItem_next w = loadItems (currentParentId w) w"

definition deleteItem_error :: "HttpErrorResponse \<Rightarrow> World \<Rightarrow> World" where
  "deleteItem_error e w = handleError e ''Unable to delete item.'' w"

section \<open>Size formatting\<close>

subsection \<open>The loop and the digits\<close>

text \<open>
  The loop started at index \<open>i\<close> stops at an index \<open>k\<close> of at most 3, having divided
  by 1024 once per step; it went on while the value was at least 1024, and below index 3
  it stops only below 1024.
\<close>

lemma formatSize_loop_char:
  "i \<le> 3 \<Longrightarrow>
   \<exists>k. formatSize_loop v i = (v / 1024 ^ (k - i), k) \<and> i \<le> k \<and> k \<le> 3 \<and>
       (k < 3 \<longrightarrow> v / 1024 ^ (k - i) < 1024) \<and>
       (\<forall>j. i \<le> j \<and> j < k \<longrightarrow> 1024 \<le> v / 1024 ^ (j - i))"
proof (induction v i rule: formatSize_loop.induct)
  case (1 v i)
  show ?case
  proof (cases "v \<ge> 1024 \<and> i < 3")
    case False
    then have "formatSize_loop v i = (v, i)"
      by (subst formatSize_loop.simps) (auto simp: units_def)
    with False "1.prems" show ?thesis
      by (intro exI[of _ i]) auto
  next
    case True
    then have step: "formatSize_loop v i = formatSize_loop (v / 1024) (i + 1)"
      by (subst formatSize_loop.simps) (simp add: units_def)
    from True have "v \<ge> 1024 \<and> i < length units - 1" by (simp add: units_def)
    moreover from True have "i + 1 \<le> 3" by simp
    ultimately obtain k where k:
      "formatSize_loop (v / 1024) (i + 1) = (v / 1024 / 1024 ^ (k - (i + 1)), k)"
      "i + 1 \<le> k" "k \<le> 3"
      "k < 3 \<longrightarrow> v / 1024 / 1024 ^ (k - (i + 1)) < 1024"
      "\<forall>j. i + 1 \<le> j \<and> j < k \<longrightarrow> 1024 \<le> v / 1024 / 1024 ^ (j - (i + 1))"
      using "1.IH" by blast
    have pw: "v / 1024 / 1024 ^ (j - (i + 1)) = v / 1024 ^ (j - i)" if "i + 1 \<le> j" for j
    proof -
      from that have "j - i = Suc (j - (i + 1))" by simp
      then show ?thesis by simp
    qed
    have all: "1024 \<le> v / 1024 ^ (j - i)" if "i \<le> j \<and> j < k" for j
    proof (cases "j = i")
      case True
      with \<open>v \<ge> 1024 \<and> i < 3\<close> show ?thesis by simp
    next
      case False
      with that have ij: "i + 1 \<le> j" and "j < k" by simp_all
      with k(5) have "1024 \<le> v / 1024 / 1024 ^ (j - (i + 1))" by blast
      then show ?thesis by (simp only: pw[OF ij])
    qed
    have "formatSize_loop v i = (v / 1024 ^ (k - i), k)"
      using step k(1) by (simp only: pw[OF k(2)])
    moreover have "k < 3 \<longrightarrow> v / 1024 ^ (k - i) < 1024"
      using k(4) by (simp only: pw[OF k(2)])
    moreover have "i \<le> k" using k(2) by simp
    ultimately show ?thesis
      using k(3) all by (intro exI[of _ k]) blast
  qed
qed

lemma show_nat_nonempty: "show_nat n \<noteq> []"
  by (subst show_nat.simps) simp

lemma digit_char_0: "digit_char 0 = CHR ''0''"
  by (simp add: digit_char_def)

lemma toFixed_digits_0: "toFixed_digits x 0 = show_nat (nat \<lfloor>x + 1 / 2\<rfloor>)"
  by (simp add: toFixed_digits_def)

lemma toFixed_digits_1:
  "toFixed_digits x 1 =
     show_nat (nat \<lfloor>x * 10 + 1 / 2\<rfloor> div 10) @ ''.'' @ [digit_char (nat \<lfloor>x * 10 + 1 / 2\<rfloor> mod 10)]"
proof -
  define N where "N = nat \<lfloor>x * 10 + 1 / 2\<rfloor>"
  show ?thesis
  proof (cases "N < 10")
    case True
    then have m: "show_nat N = [digit_char N]" by (subst show_nat.simps) simp
    from True have z: "show_nat (N div 10) = ''0''"
      by (subst show_nat.simps) (simp add: digit_char_0)
    from True m z show ?thesis
      by (simp add: toFixed_digits_def Let_def N_def[symmetric])
  next
    case False
    then have m: "show_nat N = show_nat (N div 10) @ [digit_char (N mod 10)]"
      by (subst show_nat.simps) simp
    have "show_nat (N div 10) \<noteq> []" by (rule show_nat_nonempty)
    with m show ?thesis
      by (simp add: toFixed_digits_def Let_def N_def[symmetric])
  qed
qed

lemma formatSize_Some:
  assumes "n \<noteq> 0"
  shows "\<exists>k\<le>3. (\<forall>j<k. 1024 \<le> (of_int n :: rat) / 1024 ^ j) \<and>
           (k < 3 \<longrightarrow> (of_int n :: rat) / 1024 ^ k < 1024) \<and>
           formatSize (Some n) =
             toFixed (of_int n / 1024 ^ k)
               (if 10 \<le> (of_int n :: rat) / 1024 ^ k \<or> k = 0 then 0 else 1)
             @ '' '' @ [''B'', ''KB'', ''MB'', ''GB''] ! k"
proof -
  obtain k where k: "formatSize_loop (of_int n) 0 = (of_int n / 1024 ^ (k - 0), k)"
    "k \<le> 3" "k < 3 \<longrightarrow> (of_int n :: rat) / 1024 ^ (k - 0) < 1024"
    "\<forall>j. 0 \<le> j \<and> j < k \<longrightarrow> 1024 \<le> (of_int n :: rat) / 1024 ^ (j - 0)"
    using formatSize_loop_char[of 0 "of_int n"] by auto
  from k(1) assms have "formatSize (Some n) =
      toFixed (of_int n / 1024 ^ k)
        (if 10 \<le> (of_int n :: rat) / 1024 ^ k \<or> k = 0 then 0 else 1)
      @ '' '' @ [''B'', ''KB'', ''MB'', ''GB''] ! k"
    by (simp add: formatSize_def units_def)
  with k(2-4) show ?thesis by auto
qed

lemma toFixed_nonneg:
  assumes "0 \<le> x"
  shows "toFixed x 0 = show_nat (nat \<lfloor>x + 1 / 2\<rfloor>)"
    and "toFixed x 1 =
           show_nat (nat \<lfloor>x * 10 + 1 / 2\<rfloor> div 10) @ ''.'' @
           [digit_char (nat \<lfloor>x * 10 + 1 / 2\<rfloor> mod 10)]"
  using assms by (simp_all add: toFixed_def toFixed_digits_0 toFixed_digits_1 del: One_nat_def)

lemma formatSize_absent: "formatSize None = ''-''"
  by (simp add: formatSize_def)

lemma formatSize_zero: "formatSize (Some 0) = ''-''"
  by (simp add: formatSize_def)

lemma formatSize_2048: "formatSize (Some 2048) = ''2.0 KB''"
  by code_simp

lemma formatSize_1536: "formatSize (Some 1536) = ''1.5 KB''"
  by code_simp

lemma formatSize_15MB: "formatSize (Some (15 * 1024 * 1024)) = ''15 MB''"
  by code_simp

lemma formatSize_512: "formatSize (Some 512) = ''512 B''"
  by code_simp

lemma formatSize_1TB: "formatSize (Some (1024 ^ 4)) = ''1024 GB''"
  by code_simp

subsection \<open>Claims\<close>

text \<open>
  C3, as the source has it. \<open>formatSize\<close> returns \<open>''-''\<close> for a missing size and for
  zero. For any other byte count \<open>n\<close> (an integer below \<open>2 ^ 53\<close> in magnitude) there is
  a unit index \<open>k\<close> of at most 3, reached by dividing by 1024 while the value was at
  least 1024, and left below GB only with a value below 1024; the result is the scaled value
  \<open>n / 1024 ^ k\<close> printed by \<open>toFixed\<close> with no decimal place when it is at least 10 or
  the unit is B and with one decimal place otherwise, a space, and the unit. For a
  value that is not negative, no decimal place means the digits of the value rounded to the
  nearest integer, and one decimal place means the digits of the tenths rounded likewise, with a
  point before the last one. So \<open>formatSize(1536)\<close> is \<open>1.5 KB\<close> and
  \<open>formatSize(15 * 1024 * 1024)\<close> is \<open>15 MB\<close>, but \<open>formatSize(2048)\<close> is \<open>2.0 KB\<close>: the
  scaled value 2 is below 10 and the unit is not B, so one decimal place is printed.
\<close>

theorem formatSize_scaling:
  "formatSize None = ''-'' \<and> formatSize (Some 0) = ''-'' \<and>
   (n \<noteq> 0 \<and> \<bar>n\<bar> < 2 ^ 53 \<longrightarrow>
      (\<exists>k\<le>3. (\<forall>j<k. 1024 \<le> (of_int n :: rat) / 1024 ^ j) \<and>
         (k < 3 \<longrightarrow> (of_int n :: rat) / 1024 ^ k < 1024) \<and>
         formatSize (Some n) =
           toFixed (of_int n / 1024 ^ k)
             (if 10 \<le> (of_int n :: rat) / 1024 ^ k \<or> k = 0 then 0 else 1)
           @ '' '' @ [''B'', ''KB'', ''MB'', ''GB''] ! k)) \<and>
   (0 \<le> x \<longrightarrow>
      toFixed x 0 = show_nat (nat \<lfloor>x + 1 / 2\<rfloor>) \<and>
      toFixed x 1 =
        show_nat (nat \<lfloor>x * 10 + 1 / 2\<rfloor> div 10) @ ''.'' @
        [digit_char (nat \<lfloor>x * 10 + 1 / 2\<rfloor> mod 10)]) \<and>
   formatSize (Some 2048) = ''2.0 KB'' \<and>
   formatSize (Some 1536) = ''1.5 KB'' \<and>
   formatSize (Some (15 * 1024 * 1024)) = ''15 MB''"
proof (intro conjI impI)
  show "formatSize None = ''-''" by (rule formatSize_absent)
  show "formatSize (Some 0) = ''-''" by (rule formatSize_zero)
  show "formatSize (Some 2048) = ''2.0 KB''" by (rule formatSize_2048)
  show "formatSize (Some 1536) = ''1.5 KB''" by (rule formatSize_1536)
  show "formatSize (Some (15 * 1024 * 1024)) = ''15 MB''" by (rule formatSize_15MB)
next
  assume "n \<noteq> 0 \<and> \<bar>n\<bar> < 2 ^ 53"
  then have "n \<noteq> 0" by simp
  then show "\<exists>k\<le>3. (\<forall>j<k. 1024 \<le> (of_int n :: rat) / 1024 ^ j) \<and>
         (k < 3 \<longrightarrow> (of_int n :: rat) / 1024 ^ k < 1024) \<and>
         formatSize (Some n) =
           toFixed (of_int n / 1024 ^ k)
             (if 10 \<le> (of_int n :: rat) / 1024 ^ k \<or> k = 0 then 0 else 1)
           @ '' '' @ [''B'', ''KB'', ''MB'', ''GB''] ! k"
    by (rule formatSize_Some)
next
  assume "0 \<le> x"
  then show "toFixed x 0 = show_nat (nat \<lfloor>x + 1 / 2\<rfloor>)" by (rule toFixed_nonneg(1))
next
  assume "0 \<le> x"
  then show "toFixed x 1 =
        show_nat (nat \<lfloor>x * 10 + 1 / 2\<rfloor> div 10) @ ''.'' @
        [digit_char (nat \<lfloor>x * 10 + 1 / 2\<rfloor> mod 10)]" by (rule toFixed_nonneg(2))
qed

text \<open>The theorem at the byte count 1536 and the value \<open>3 / 2\<close>.\<close>

theorem formatSize_scaling_witness:
  "(1536 :: int) \<noteq> 0 \<and> \<bar>1536 :: int\<bar> < 2 ^ 53 \<and> (0 :: rat) \<le> 3 / 2 \<and>
   (\<exists>k\<le>3. (\<forall>j<k. 1024 \<le> (of_int 1536 :: rat) / 1024 ^ j) \<and>
      (k < 3 \<longrightarrow> (of_int 1536 :: rat) / 1024 ^ k < 1024) \<and>
      formatSize (Some 1536) =
        toFixed (of_int 1536 / 1024 ^ k)
          (if 10 \<le> (of_int 1536 :: rat) / 1024 ^ k \<or> k = 0 then 0 else 1)
        @ '' '' @ [''B'', ''KB'', ''MB'', ''GB''] ! k) \<and>
   toFixed (3 / 2) 1 =
     show_nat (nat \<lfloor>(3 / 2 :: rat) * 10 + 1 / 2\<rfloor> div 10) @ ''.'' @
     [digit_char (nat \<lfloor>(3 / 2 :: rat) * 10 + 1 / 2\<rfloor> mod 10)]"
proof -
  have h1: "(1536 :: int) \<noteq> 0 \<and> \<bar>1536 :: int\<bar> < 2 ^ 53" by simp
  have h2: "(0 :: rat) \<le> 3 / 2" by simp
  from formatSize_scaling [of 1536 "3 / 2"] h1 h2 show ?thesis by blast
qed

text \<open>
  C3 as the specification words it fails at its own example: \<open>formatSize(2048)\<close> is not
  \<open>2 KB\<close>.
\<close>

theorem formatSize_2048_counterexample:
  "formatSize (Some 2048) \<noteq> ''2 KB''"
  by code_simp

text \<open>
  C4, as the source has it: \<open>formatSize(512)\<close> is \<open>512 B\<close> (a value below 1024 is printed
  whole, in bytes), and \<open>formatSize(1024 ** 4)\<close> is \<open>1024 GB\<close> (the scaled value 1024 is
  at least 10, so no decimal place is printed).
\<close>

theorem formatSize_512_and_1024_pow_4:
  "formatSize (Some 512) = ''512 B'' \<and> formatSize (Some (1024 ^ 4)) = ''1024 GB''"
  using formatSize_512 formatSize_1TB by (rule conjI)

text \<open>C4 as the specification words it fails at both of its inputs.\<close>

theorem formatSize_512_and_1024_pow_4_counterexample:
  "formatSize (Some 512) \<noteq> ''0 B'' \<and> formatSize (Some (1024 ^ 4)) \<noteq> ''1024.0 GB''"
  by code_simp

section \<open>Navigation and synchronisation\<close>

subsection \<open>What the shared pieces leave alone\<close>

lemma apiMessage_cases:
  "(error e = Some b \<and> desc b = Some d \<and> d \<noteq> [] \<longrightarrow> apiMessage e = d) \<and>
   (error e = Some b \<and> (desc b = None \<or> desc b = Some []) \<and> message b = Some m \<and> m \<noteq> []
      \<longrightarrow> apiMessage e = m) \<and>
   (error e = None \<or>
    error e = Some b \<and> (desc b = None \<or> desc b = Some []) \<and>
      (message b = None \<or> message b = Some [])
      \<longrightarrow> apiMessage e = [])"
  by (auto simp: apiMessage_def truthy_def)

lemma handleError_fields:
  "errorMessage (handleError e fb w) = (if apiMessage e = [] then fb else fb @ '' '' @ apiMessage e)"
  "\<not> loading (handleError e fb w)"
  "uploading (handleError e fb w) = uploading w"
  "items (handleError e fb w) = items w"
  "path (handleError e fb w) = path w"
  "currentParentId (handleError e fb w) = currentParentId w"
  "newFolderName (handleError e fb w) = newFolderName w"
  "inputs (handleError e fb w) = inputs w"
  "http (handleError e fb w) = http w"
  by (simp_all add: handleError_def)

lemma loadItems_fields:
  "currentParentId (loadItems p w) = p"
  "http (loadItems p w) = http w @ [GetItems (if truthy p then p else None)]"
  "loading (loadItems p w)"
  "errorMessage (loadItems p w) = []"
  "items (loadItems p w) = items w"
  "path (loadItems p w) = path w"
  "newFolderName (loadItems p w) = newFolderName w"
  "inputs (loadItems p w) = inputs w"
  "uploading (loadItems p w) = uploading w"
  by (simp_all add: loadItems_def)

lemma loadPath_fields:
  "newFolderName (loadPath w) = newFolderName w"
  "inputs (loadPath w) = inputs w"
  "items (loadPath w) = items w"
  "currentParentId (loadPath w) = currentParentId w"
  by (simp_all add: loadPath_def)

lemma trim_blanks: "trim ''  '' = []"
  by (simp add: trim_def is_white_def)

subsection \<open>Listing and breadcrumb\<close>

text \<open>
  C1, as the source has it. When a listing request succeeds, the entry list becomes
  exactly the items of the response (the empty list when the response has none),
  \<open>loading\<close> is false afterwards, and \<open>loadPath\<close> runs on the result: breadcrumb
  resolution for the location that is current when the response arrives. At a folder
  \<open>p\<close> that is one more request, for the path of \<open>p\<close>; at the root it is no request
  and the root-only breadcrumb. When the response follows its own \<open>loadItems\<close> call
  with no other navigation in between, the current location is the one that was listed.
\<close>

theorem loadItems_next_effect:
  "items (loadItems_next response w) = (case r_items response of None \<Rightarrow> [] | Some xs \<Rightarrow> xs) \<and>
   \<not> loading (loadItems_next response w) \<and>
   currentParentId (loadItems_next response w) = currentParentId w \<and>
   loadItems_next response w =
     loadPath (w\<lparr>items := (case r_items response of None \<Rightarrow> [] | Some xs \<Rightarrow> xs),
                 loading := False\<rparr>) \<and>
   (currentParentId w = Some p \<and> p \<noteq> [] \<longrightarrow>
      http (loadItems_next response w) = http w @ [GetItemPath p] \<and>
      path (loadItems_next response w) = path w) \<and>
   (currentParentId w = None \<longrightarrow>
      http (loadItems_next response w) = http w \<and>
      path (loadItems_next response w) = [\<lparr>p_id = ''root'', p_name = ''Root'', p_folder = True\<rparr>]) \<and>
   (p \<noteq> [] \<longrightarrow>
      http (loadItems_next response (loadItems (Some p) w)) =
        http w @ [GetItems (Some p), GetItemPath p])"
  by (simp add: loadItems_next_def loadPath_def loadItems_def truthy_def rootSegment_def)

text \<open>
  The theorem after a navigation to the folder \<open>a\<close> and after one to the root, with a
  response that has no items.
\<close>

theorem loadItems_next_effect_witness:
  "currentParentId (loadItems (Some ''a'') init) = Some ''a'' \<and> ''a'' \<noteq> [] \<and>
   items (loadItems_next \<lparr>r_items = None\<rparr> (loadItems (Some ''a'') init)) = [] \<and>
   \<not> loading (loadItems_next \<lparr>r_items = None\<rparr> (loadItems (Some ''a'') init)) \<and>
   http (loadItems_next \<lparr>r_items = None\<rparr> (loadItems (Some ''a'') init)) =
     [GetItems (Some ''a''), GetItemPath ''a''] \<and>
   currentParentId (loadItems None init) = None \<and>
   http (loadItems_next \<lparr>r_items = None\<rparr> (loadItems None init)) = [GetItems None] \<and>
   path (loadItems_next \<lparr>r_items = None\<rparr> (loadItems None init)) =
     [\<lparr>p_id = ''root'', p_name = ''Root'', p_folder = True\<rparr>]"
proof -
  have h0: "currentParentId (loadItems None init) = None"
    by (simp add: loadItems_def)
  have l0: "http (loadItems None init) = [GetItems None]"
    by (simp add: loadItems_def init_def truthy_def)
  note t0 = loadItems_next_effect [of "\<lparr>r_items = None\<rparr>" "loadItems None init" "''a''"]
  from t0 h0 have "http (loadItems_next \<lparr>r_items = None\<rparr> (loadItems None init)) =
      http (loadItems None init)"
    and r2: "path (loadItems_next \<lparr>r_items = None\<rparr> (loadItems None init)) =
      [\<lparr>p_id = ''root'', p_name = ''Root'', p_folder = True\<rparr>]"
    by blast+
  with l0 have r1: "http (loadItems_next \<lparr>r_items = None\<rparr> (loadItems None init)) =
      [GetItems None]"
    by simp
  have h: "currentParentId (loadItems (Some ''a'') init) = Some ''a'' \<and> ''a'' \<noteq> []"
    by (simp add: loadItems_def)
  have l: "http (loadItems (Some ''a'') init) = [GetItems (Some ''a'')]"
    by (simp add: loadItems_def init_def truthy_def)
  note t = loadItems_next_effect [of "\<lparr>r_items = None\<rparr>" "loadItems (Some ''a'') init" "''a''"]
  from t have "items (loadItems_next \<lparr>r_items = None\<rparr> (loadItems (Some ''a'') init)) =
      (case r_items \<lparr>r_items = None\<rparr> of None \<Rightarrow> [] | Some xs \<Rightarrow> xs)"
    by blast
  then have i: "items (loadItems_next \<lparr>r_items = None\<rparr> (loadItems (Some ''a'') init)) = []"
    by simp
  from t have n: "\<not> loading (loadItems_next \<lparr>r_items = None\<rparr> (loadItems (Some ''a'') init))"
    by blast
  from t h have "http (loadItems_next \<lparr>r_items = None\<rparr> (loadItems (Some ''a'') init)) =
      http (loadItems (Some ''a'') init) @ [GetItemPath ''a'']"
    by blast
  with l have "http (loadItems_next \<lparr>r_items = None\<rparr> (loadItems (Some ''a'') init)) =
      [GetItems (Some ''a''), GetItemPath ''a'']"
    by simp
  with h i n h0 r1 r2 show ?thesis by blast
qed

text \<open>
  C1 as the specification words it, with breadcrumb resolution for the location that was
  listed, fails when a second navigation starts before the first response arrives. The
  \<open>next\<close> callback reads \<open>currentParentId\<close> when it runs: after \<open>loadItems('a')\<close> and
  \<open>loadItems('b')\<close>, the response to the listing of \<open>a\<close> makes the component ask for the
  path of \<open>b\<close>, and the path of \<open>a\<close> is never requested.
\<close>

theorem loadItems_next_other_location_counterexample:
  "http (loadItems_next \<lparr>r_items = Some []\<rparr>
           (loadItems (Some ''b'') (loadItems (Some ''a'') init))) =
     [GetItems (Some ''a''), GetItems (Some ''b''), GetItemPath ''b''] \<and>
   GetItemPath ''a'' \<notin> set (http (loadItems_next \<lparr>r_items = Some []\<rparr>
           (loadItems (Some ''b'') (loadItems (Some ''a'') init))))"
  by (simp add: loadItems_next_def loadPath_def loadItems_def truthy_def init_def)

text \<open>
  C5, as the source has it. When a path request succeeds and the response has no
  \<open>items\<close> field, the breadcrumb becomes the root-only segment; when it has one, the
  breadcrumb becomes that list, whatever it is, an empty list included. Nothing else
  changes.
\<close>

theorem loadPath_next_effect:
  "(r_path response = None \<longrightarrow>
      path (loadPath_next response w) = [\<lparr>p_id = ''root'', p_name = ''Root'', p_folder = True\<rparr>]) \<and>
   (r_path response = Some ps \<longrightarrow> path (loadPath_next response w) = ps) \<and>
   loadPath_next response w = w\<lparr>path := path (loadPath_next response w)\<rparr>"
  by (simp add: loadPath_next_def rootSegment_def)

text \<open>The theorem at a response without items and at one with two segments.\<close>

theorem loadPath_next_effect_witness:
  "r_path \<lparr>r_path = None\<rparr> = None \<and>
   path (loadPath_next \<lparr>r_path = None\<rparr> init) = [\<lparr>p_id = ''root'', p_name = ''Root'', p_folder = True\<rparr>] \<and>
   r_path \<lparr>r_path = Some [\<lparr>p_id = ''root'', p_name = ''Root'', p_folder = True\<rparr>,
                          \<lparr>p_id = ''a'', p_name = ''A'', p_folder = True\<rparr>]\<rparr> =
     Some [\<lparr>p_id = ''root'', p_name = ''Root'', p_folder = True\<rparr>,
           \<lparr>p_id = ''a'', p_name = ''A'', p_folder = True\<rparr>] \<and>
   path (loadPath_next
           \<lparr>r_path = Some [\<lparr>p_id = ''root'', p_name = ''Root'', p_folder = True\<rparr>,
                           \<lparr>p_id = ''a'', p_name = ''A'', p_folder = True\<rparr>]\<rparr> init) =
     [\<lparr>p_id = ''root'', p_name = ''Root'', p_folder = True\<rparr>,
      \<lparr>p_id = ''a'', p_name = ''A'', p_folder = True\<rparr>]"
  using loadPath_next_effect [where response = "\<lparr>r_path = None\<rparr>" and w = init]
    loadPath_next_effect
      [where response = "\<lparr>r_path = Some [\<lparr>p_id = ''root'', p_name = ''Root'', p_folder = True\<rparr>,
                              \<lparr>p_id = ''a'', p_name = ''A'', p_folder = True\<rparr>]\<rparr>"
         and ps = "[\<lparr>p_id = ''root'', p_name = ''Root'', p_folder = True\<rparr>,
            \<lparr>p_id = ''a'', p_name = ''A'', p_folder = True\<rparr>]" and w = init]
  by simp

text \<open>
  C5 as the specification words it fails for a response whose items are the empty list:
  \<open>??\<close> replaces only \<open>null\<close> and \<open>undefined\<close>, so the breadcrumb becomes empty, not the
  root-only segment.
\<close>

theorem loadPath_next_empty_counterexample:
  "path (loadPath_next \<lparr>r_path = Some []\<rparr> init) = [] \<and>
   path (loadPath_next \<lparr>r_path = Some []\<rparr> init) \<noteq>
     [\<lparr>p_id = ''root'', p_name = ''Root'', p_folder = True\<rparr>]"
  by (simp add: loadPath_next_def)

text \<open>
  C6. When the current location is the root (\<open>currentParentId\<close> is \<open>null\<close>; the empty
  string is falsy too and counts as the root), breadcrumb resolution sets the breadcrumb
  to the single segment with identifier \<open>root\<close>, name \<open>Root\<close> and folder flag true,
  sends no request and changes nothing else.
\<close>

theorem loadPath_root:
  "currentParentId w = None \<or> currentParentId w = Some [] \<Longrightarrow>
   path (loadPath w) = [\<lparr>p_id = ''root'', p_name = ''Root'', p_folder = True\<rparr>] \<and>
   http (loadPath w) = http w \<and>
   loadPath w = w\<lparr>path := [\<lparr>p_id = ''root'', p_name = ''Root'', p_folder = True\<rparr>]\<rparr>"
  by (auto simp: loadPath_def truthy_def rootSegment_def)

text \<open>The theorem at the initial component with its breadcrumb emptied.\<close>

theorem loadPath_root_witness:
  "currentParentId (init\<lparr>path := []\<rparr>) = None \<and>
   path (loadPath (init\<lparr>path := []\<rparr>)) = [\<lparr>p_id = ''root'', p_name = ''Root'', p_folder = True\<rparr>] \<and>
   http (loadPath (init\<lparr>path := []\<rparr>)) = []"
proof -
  have h: "currentParentId (init\<lparr>path := []\<rparr>) = None" by (simp add: init_def)
  then have "currentParentId (init\<lparr>path := []\<rparr>) = None \<or>
      currentParentId (init\<lparr>path := []\<rparr>) = Some []" by (rule disjI1)
  from loadPath_root [OF this] have
    "path (loadPath (init\<lparr>path := []\<rparr>)) = [\<lparr>p_id = ''root'', p_name = ''Root'', p_folder = True\<rparr>]"
    "http (loadPath (init\<lparr>path := []\<rparr>)) = http (init\<lparr>path := []\<rparr>)"
    by blast+
  moreover have "http (init\<lparr>path := []\<rparr>) = []" by (simp add: init_def)
  ultimately show ?thesis using h by simp
qed

subsection \<open>Errors\<close>

text \<open>
  C2, as the source has it. The message of the server is \<open>desc\<close> when that is a
  non-empty string, else \<open>message\<close> when that is a non-empty string, else nothing. Each of
  the six error callbacks sets \<open>errorMessage\<close> to its fallback message alone when there is
  no message of the server, and to the fallback, a space and the message otherwise, and
  leaves \<open>loading\<close> false. \<open>uploading\<close> is false after a failed upload; the other five
  callbacks leave it as it was.
\<close>

theorem error_callbacks_effect:
  "(error e = Some b \<and> desc b = Some d \<and> d \<noteq> [] \<longrightarrow> apiMessage e = d) \<and>
   (error e = Some b \<and> (desc b = None \<or> desc b = Some []) \<and> message b = Some m \<and> m \<noteq> []
      \<longrightarrow> apiMessage e = m) \<and>
   (error e = None \<or>
    error e = Some b \<and> (desc b = None \<or> desc b = Some []) \<and>
      (message b = None \<or> message b = Some [])
      \<longrightarrow> apiMessage e = []) \<and>
   (\<forall>(cb, fallback) \<in> set
        [(loadItems_error, ''Unable to load items.''),
         (loadPath_error, ''Unable to load path.''),
         (onUploadChange_error, ''Unable to upload file.''),
         (createFolder_error, ''Unable to create folder.''),
         (deleteItem_error, ''Unable to delete item.''),
         (downloadItem_error, ''Unable to download file.'')].
      errorMessage (cb e w) =
        (if apiMessage e = [] then fallback else fallback @ '' '' @ apiMessage e) \<and>
      \<not> loading (cb e w)) \<and>
   \<not> uploading (onUploadChange_error e w) \<and>
   (\<forall>cb \<in> set [loadItems_error, loadPath_error, createFolder_error, deleteItem_error,
                 downloadItem_error].
      uploading (cb e w) = uploading w)"
proof (intro conjI)
  show "\<not> uploading (onUploadChange_error e w)"
    by (simp add: onUploadChange_error_def handleError_fields)
qed (simp_all add: apiMessage_cases [of e b d m] handleError_fields loadItems_error_def
      loadPath_error_def onUploadChange_error_def createFolder_error_def deleteItem_error_def
      downloadItem_error_def)

text \<open>
  The theorem on the initial component, at an error body whose \<open>desc\<close> is \<open>gone\<close>, at
  one whose \<open>desc\<close> is empty and whose \<open>message\<close> is \<open>busy\<close>, and at an error without a
  body.
\<close>

theorem error_callbacks_effect_witness:
  "error \<lparr>error = Some \<lparr>desc = Some ''gone'', message = None\<rparr>\<rparr> =
     Some \<lparr>desc = Some ''gone'', message = None\<rparr> \<and>
   desc \<lparr>desc = Some ''gone'', message = None\<rparr> = Some ''gone'' \<and> ''gone'' \<noteq> [] \<and>
   errorMessage (deleteItem_error \<lparr>error = Some \<lparr>desc = Some ''gone'', message = None\<rparr>\<rparr> init) =
     ''Unable to delete item. gone'' \<and>
   \<not> loading (deleteItem_error \<lparr>error = Some \<lparr>desc = Some ''gone'', message = None\<rparr>\<rparr> init) \<and>
   \<not> uploading (onUploadChange_error \<lparr>error = Some \<lparr>desc = Some ''gone'', message = None\<rparr>\<rparr> init) \<and>
   apiMessage \<lparr>error = Some \<lparr>desc = Some [], message = Some ''busy''\<rparr>\<rparr> = ''busy'' \<and>
   apiMessage \<lparr>error = None\<rparr> = [] \<and>
   errorMessage (loadPath_error \<lparr>error = None\<rparr> init) = ''Unable to load path.''"
proof -
  let ?b2 = "\<lparr>desc = Some [], message = Some ''busy''\<rparr>"
  let ?e2 = "\<lparr>error = Some ?b2\<rparr>"
  have "error ?e2 = Some ?b2 \<and> (desc ?b2 = None \<or> desc ?b2 = Some []) \<and>
      message ?b2 = Some ''busy'' \<and> ''busy'' \<noteq> []" by simp
  with error_callbacks_effect [of ?e2 ?b2 "[]" "''busy''" init]
  have a2: "apiMessage ?e2 = ''busy''" by blast
  let ?e3 = "\<lparr>error = None\<rparr> :: HttpErrorResponse"
  note t3 = error_callbacks_effect [of ?e3 ?b2 "[]" "[]" init]
  have "error ?e3 = None" by simp
  with t3 have a3: "apiMessage ?e3 = []" by blast
  have "(loadPath_error, ''Unable to load path.'') \<in> set
        [(loadItems_error, ''Unable to load items.''),
         (loadPath_error, ''Unable to load path.''),
         (onUploadChange_error, ''Unable to upload file.''),
         (createFolder_error, ''Unable to create folder.''),
         (deleteItem_error, ''Unable to delete item.''),
         (downloadItem_error, ''Unable to download file.'')]"
    by simp
  with t3 have "errorMessage (loadPath_error ?e3 init) =
        (if apiMessage ?e3 = [] then ''Unable to load path.''
         else ''Unable to load path.'' @ '' '' @ apiMessage ?e3)"
    by blast
  with a3 have m3: "errorMessage (loadPath_error ?e3 init) = ''Unable to load path.''"
    by simp
  let ?b = "\<lparr>desc = Some ''gone'', message = None\<rparr>"
  let ?e = "\<lparr>error = Some ?b\<rparr>"
  note t = error_callbacks_effect [of ?e ?b "''gone''" "[]" init]
  have h: "error ?e = Some ?b \<and> desc ?b = Some ''gone'' \<and> ''gone'' \<noteq> []" by simp
  with t have a: "apiMessage ?e = ''gone''" by blast
  have mem: "(deleteItem_error, ''Unable to delete item.'') \<in> set
        [(loadItems_error, ''Unable to load items.''),
         (loadPath_error, ''Unable to load path.''),
         (onUploadChange_error, ''Unable to upload file.''),
         (createFolder_error, ''Unable to create folder.''),
         (deleteItem_error, ''Unable to delete item.''),
         (downloadItem_error, ''Unable to download file.'')]"
    by simp
  from t mem have "errorMessage (deleteItem_error ?e init) =
        (if apiMessage ?e = [] then ''Unable to delete item.''
         else ''Unable to delete item.'' @ '' '' @ apiMessage ?e) \<and>
      \<not> loading (deleteItem_error ?e init)"
    by blast
  with a have "errorMessage (deleteItem_error ?e init) = ''Unable to delete item. gone'' \<and>
      \<not> loading (deleteItem_error ?e init)"
    by simp
  moreover from t have "\<not> uploading (onUploadChange_error ?e init)" by blast
  ultimately show ?thesis using h a2 a3 m3 by blast
qed

text \<open>
  C2 as the specification words it fails twice. A delete that fails while an upload is in
  flight leaves \<open>uploading\<close> true. And an error body whose \<open>desc\<close> is the empty string
  carries a \<open>desc\<close> field, yet the message is the fallback alone, with no space after it.
\<close>

theorem error_callbacks_counterexample:
  "uploading (deleteItem_error \<lparr>error = None\<rparr>
      (deleteItem
         \<lparr>f_id = ''7'', f_parentId = None, f_name = ''old'', f_folder = True, f_creation = [],
          f_modification = [], f_filePath = None, f_mimeType = None, f_size = None\<rparr>
         (onUploadChange 0
            (init\<lparr>inputs := (\<lambda>a. \<lparr>files = Some [\<lparr>file_name = ''a.txt'', file_data = []\<rparr>],
                                     input_value = ''a.txt''\<rparr>)\<rparr>)))) \<and>
   errorMessage (loadItems_error \<lparr>error = Some \<lparr>desc = Some [], message = None\<rparr>\<rparr> init) \<noteq>
     ''Unable to load items.'' @ '' '' @ []"
  by (simp add: deleteItem_error_def deleteItem_def onUploadChange_def first_file_def
      loadItems_error_def handleError_def apiMessage_def truthy_def)

subsection \<open>Mutations\<close>

text \<open>
  C7. The success callback of an upload, of a folder creation and of a delete each sends
  exactly one request, a listing of the location that is current when the callback runs
  (with \<open>parentId = p\<close> at a folder \<open>p\<close>, with no parent filter at the root), and leaves
  the current location as it is.
\<close>

theorem mutation_success_refresh:
  "h \<in> {onUploadChange_next input, createFolder_next, deleteItem_next} \<Longrightarrow>
   http (h w) = http w @ [GetItems (if truthy (currentParentId w) then currentParentId w else None)] \<and>
   length (http (h w)) = length (http w) + 1 \<and>
   currentParentId (h w) = currentParentId w \<and>
   (currentParentId w = Some p \<and> p \<noteq> [] \<longrightarrow> http (h w) = http w @ [GetItems (Some p)]) \<and>
   (currentParentId w = None \<longrightarrow> http (h w) = http w @ [GetItems None])"
  by (auto simp: onUploadChange_next_def createFolder_next_def deleteItem_next_def
      loadItems_fields Let_def truthy_def)

text \<open>
  The theorem at the delete callback, after a navigation to the folder \<open>a\<close>, and at the
  callback of a folder creation at the root.
\<close>

theorem mutation_success_refresh_witness:
  "deleteItem_next \<in> {onUploadChange_next 0, createFolder_next, deleteItem_next} \<and>
   currentParentId (loadItems (Some ''a'') init) = Some ''a'' \<and> ''a'' \<noteq> [] \<and>
   http (deleteItem_next (loadItems (Some ''a'') init)) =
     http (loadItems (Some ''a'') init) @ [GetItems (Some ''a'')] \<and>
   currentParentId (deleteItem_next (loadItems (Some ''a'') init)) = Some ''a'' \<and>
   createFolder_next \<in> {onUploadChange_next 0, createFolder_next, deleteItem_next} \<and>
   currentParentId init = None \<and>
   http (createFolder_next init) = [GetItems None]"
proof -
  have m0: "createFolder_next \<in> {onUploadChange_next 0, createFolder_next, deleteItem_next}"
    by simp
  have c0: "currentParentId init = None" and "http init = []" by (simp_all add: init_def)
  with mutation_success_refresh [OF m0, of init "''a''"]
  have r0: "http (createFolder_next init) = [GetItems None]" by simp
  have m: "deleteItem_next \<in> {onUploadChange_next 0, createFolder_next, deleteItem_next}"
    by simp
  have c: "currentParentId (loadItems (Some ''a'') init) = Some ''a'' \<and> ''a'' \<noteq> []"
    by (simp add: loadItems_fields)
  note t = mutation_success_refresh [OF m, of "loadItems (Some ''a'') init" "''a''"]
  from t c have "http (deleteItem_next (loadItems (Some ''a'') init)) =
      http (loadItems (Some ''a'') init) @ [GetItems (Some ''a'')]" by blast
  moreover from t c have "currentParentId (deleteItem_next (loadItems (Some ''a'') init)) = Some ''a''"
    by simp
  ultimately show ?thesis using m c m0 c0 r0 by blast
qed

text \<open>
  C8. \<open>createFolder\<close> with a name that is empty after trimming (two spaces, for one),
  and \<open>onUploadChange\<close> on an input with no file (\<open>files\<close> is \<open>null\<close> or empty), return
  the world as it was: no request is sent and no error message is set.
\<close>

theorem validation_rejections_silent:
  "(trim (newFolderName w) = [] \<longrightarrow> createFolder w = w) \<and>
   (newFolderName w = ''  '' \<longrightarrow> createFolder w = w) \<and>
   (files (inputs w input) = None \<or> files (inputs w input) = Some [] \<longrightarrow>
      onUploadChange input w = w)"
  by (auto simp: createFolder_def onUploadChange_def first_file_def trim_blanks)

text \<open>The theorem at the initial component with two spaces as the folder name.\<close>

theorem validation_rejections_silent_witness:
  "newFolderName (init\<lparr>newFolderName := ''  ''\<rparr>) = ''  '' \<and>
   trim (newFolderName (init\<lparr>newFolderName := ''  ''\<rparr>)) = [] \<and>
   files (inputs (init\<lparr>newFolderName := ''  ''\<rparr>) 0) = None \<and>
   http (createFolder (init\<lparr>newFolderName := ''  ''\<rparr>)) = [] \<and>
   errorMessage (createFolder (init\<lparr>newFolderName := ''  ''\<rparr>)) = [] \<and>
   http (onUploadChange 0 (init\<lparr>newFolderName := ''  ''\<rparr>)) = [] \<and>
   errorMessage (onUploadChange 0 (init\<lparr>newFolderName := ''  ''\<rparr>)) = []"
proof -
  let ?w = "init\<lparr>newFolderName := ''  ''\<rparr>"
  have h1: "newFolderName ?w = ''  ''" by simp
  have h2: "trim (newFolderName ?w) = []" by (simp add: trim_def is_white_def)
  have h3: "files (inputs ?w 0) = None" by (simp add: init_def)
  note t = validation_rejections_silent [of ?w 0]
  from t h2 have c: "createFolder ?w = ?w" by blast
  from t h3 have u: "onUploadChange 0 ?w = ?w" by blast
  have "http ?w = []" "errorMessage ?w = []" by (simp_all add: init_def)
  with c u h1 h2 h3 show ?thesis by simp
qed

text \<open>
  C10. A failed folder creation leaves \<open>newFolderName\<close> as it was, and a failed upload
  leaves the input elements as they were. The success callback of a folder creation
  empties \<open>newFolderName\<close>, and that of an upload empties the value of its input. No
  other method or callback of the component changes \<open>newFolderName\<close>, and none but the
  success callback of an upload changes an input element.
\<close>

theorem pending_inputs_cleared_only_on_success:
  "newFolderName (createFolder_error e w) = newFolderName w \<and>
   inputs (onUploadChange_error e w) = inputs w \<and>
   newFolderName (createFolder_next w) = [] \<and>
   input_value (inputs (onUploadChange_next input w) input) = [] \<and>
   (\<forall>h \<in> {loadItems p, loadItems_next response, loadItems_error e, loadPath,
           loadPath_next presponse, loadPath_error e, navigateTo seg, openItem item,
           downloadItem item, downloadItem_next item blob, downloadItem_error e,
           onUploadChange input, onUploadChange_next input, onUploadChange_error e,
           createFolder, createFolder_error e,
           deleteItem item, deleteItem_next, deleteItem_error e}.
      newFolderName (h w) = newFolderName w) \<and>
   (\<forall>h \<in> {loadItems p, loadItems_next response, loadItems_error e, loadPath,
           loadPath_next presponse, loadPath_error e, navigateTo seg, openItem item,
           downloadItem item, downloadItem_next item blob, downloadItem_error e,
           onUploadChange input, onUploadChange_error e,
           createFolder, createFolder_next, createFolder_error e,
           deleteItem item, deleteItem_next, deleteItem_error e}.
      inputs (h w) = inputs w)"
  by (simp add: loadItems_fields handleError_fields loadPath_fields Let_def
      loadItems_next_def loadItems_error_def loadPath_next_def loadPath_error_def
      navigateTo_def openItem_def downloadItem_def downloadItem_next_def downloadItem_error_def
      onUploadChange_def onUploadChange_next_def onUploadChange_error_def
      createFolder_def createFolder_next_def createFolder_error_def
      deleteItem_def deleteItem_next_def deleteItem_error_def split: option.split)

text \<open>
  The theorem at a component with a pending folder name and a chosen file, for a failure
  without a body.
\<close>

theorem pending_inputs_cleared_only_on_success_witness:
  "newFolderName (createFolder_error \<lparr>error = None\<rparr>
     (init\<lparr>newFolderName := ''docs'',
           inputs := (\<lambda>a. \<lparr>files = Some [\<lparr>file_name = ''a.txt'', file_data = []\<rparr>],
                            input_value = ''a.txt''\<rparr>)\<rparr>)) = ''docs'' \<and>
   input_value (inputs (onUploadChange_error \<lparr>error = None\<rparr>
     (init\<lparr>newFolderName := ''docs'',
           inputs := (\<lambda>a. \<lparr>files = Some [\<lparr>file_name = ''a.txt'', file_data = []\<rparr>],
                            input_value = ''a.txt''\<rparr>)\<rparr>)) 0) = ''a.txt'' \<and>
   newFolderName (createFolder
     (init\<lparr>newFolderName := ''docs'',
           inputs := (\<lambda>a. \<lparr>files = Some [\<lparr>file_name = ''a.txt'', file_data = []\<rparr>],
                            input_value = ''a.txt''\<rparr>)\<rparr>)) = ''docs'' \<and>
   input_value (inputs (onUploadChange_next 0
     (init\<lparr>newFolderName := ''docs'',
           inputs := (\<lambda>a. \<lparr>files = Some [\<lparr>file_name = ''a.txt'', file_data = []\<rparr>],
                            input_value = ''a.txt''\<rparr>)\<rparr>)) 0) = [] \<and>
   input_value (inputs (createFolder_next
     (init\<lparr>newFolderName := ''docs'',
           inputs := (\<lambda>a. \<lparr>files = Some [\<lparr>file_name = ''a.txt'', file_data = []\<rparr>],
                            input_value = ''a.txt''\<rparr>)\<rparr>)) 0) = ''a.txt''"
proof -
  let ?w = "init\<lparr>newFolderName := ''docs'',
           inputs := (\<lambda>a. \<lparr>files = Some [\<lparr>file_name = ''a.txt'', file_data = []\<rparr>],
                            input_value = ''a.txt''\<rparr>)\<rparr>"
  let ?e = "\<lparr>error = None\<rparr>"
  note t = pending_inputs_cleared_only_on_success [where e = ?e and w = ?w and input = 0]
  from t have "newFolderName (createFolder_error ?e ?w) = newFolderName ?w" by blast
  then have 1: "newFolderName (createFolder_error ?e ?w) = ''docs''" by simp
  from t have "inputs (onUploadChange_error ?e ?w) = inputs ?w" by blast
  then have 2: "input_value (inputs (onUploadChange_error ?e ?w) 0) = ''a.txt''" by simp
  from t have "newFolderName (createFolder ?w) = newFolderName ?w" by simp
  then have 3: "newFolderName (createFolder ?w) = ''docs''" by simp
  from t have 4: "input_value (inputs (onUploadChange_next 0 ?w) 0) = []" by blast
  from t have "inputs (createFolder_next ?w) = inputs ?w" by simp
  then have 5: "input_value (inputs (createFolder_next ?w) 0) = ''a.txt''" by simp
  from 1 2 3 4 5 show ?thesis by blast
qed

subsection \<open>Opening and downloading\<close>

text \<open>
  C9. Opening a folder entry makes the entry's identifier the current location (and sends
  the listing request for it). Opening an entry that is not a folder is \<open>downloadItem\<close>: it
  leaves the current location as it was and sends exactly one request, for the entry's
  content. Neither \<open>downloadItem\<close> nor either of its callbacks changes the current
  location, the entry list or the breadcrumb.
\<close>

theorem openItem_effect:
  "(f_folder item \<longrightarrow>
      currentParentId (openItem item w) = Some (f_id item) \<and>
      http (openItem item w) =
        http w @ [GetItems (if f_id item = [] then None else Some (f_id item))]) \<and>
   (\<not> f_folder item \<longrightarrow>
      currentParentId (openItem item w) = currentParentId w \<and>
      http (openItem item w) = http w @ [GetItemBlob (f_id item)] \<and>
      openItem item w = downloadItem item w) \<and>
   (\<forall>w' \<in> {downloadItem item w, downloadItem_next item blob w, downloadItem_error e w}.
      currentParentId w' = currentParentId w \<and> items w' = items w \<and> path w' = path w)"
  by (simp add: openItem_def loadItems_fields downloadItem_def downloadItem_next_def
      downloadItem_error_def handleError_fields truthy_def)

text \<open>The theorem at a folder entry and at a file entry, on the initial component.\<close>

theorem openItem_effect_witness:
  "f_folder \<lparr>f_id = ''d1'', f_parentId = None, f_name = ''docs'', f_folder = True,
      f_creation = [], f_modification = [], f_filePath = None, f_mimeType = None,
      f_size = None\<rparr> \<and>
   currentParentId (openItem
     \<lparr>f_id = ''d1'', f_parentId = None, f_name = ''docs'', f_folder = True,
      f_creation = [], f_modification = [], f_filePath = None, f_mimeType = None,
      f_size = None\<rparr> init) = Some ''d1'' \<and>
   \<not> f_folder \<lparr>f_id = ''f1'', f_parentId = None, f_name = ''a.txt'', f_folder = False,
      f_creation = [], f_modification = [], f_filePath = Some ''/a.txt'',
      f_mimeType = Some ''text/plain'', f_size = Some 1536\<rparr> \<and>
   currentParentId (openItem
     \<lparr>f_id = ''f1'', f_parentId = None, f_name = ''a.txt'', f_folder = False,
      f_creation = [], f_modification = [], f_filePath = Some ''/a.txt'',
      f_mimeType = Some ''text/plain'', f_size = Some 1536\<rparr> init) = None \<and>
   http (openItem
     \<lparr>f_id = ''f1'', f_parentId = None, f_name = ''a.txt'', f_folder = False,
      f_creation = [], f_modification = [], f_filePath = Some ''/a.txt'',
      f_mimeType = Some ''text/plain'', f_size = Some 1536\<rparr> init) = [GetItemBlob ''f1''] \<and>
   path (downloadItem_next
     \<lparr>f_id = ''f1'', f_parentId = None, f_name = ''a.txt'', f_folder = False,
      f_creation = [], f_modification = [], f_filePath = Some ''/a.txt'',
      f_mimeType = Some ''text/plain'', f_size = Some 1536\<rparr> [104, 105] init) = path init"
proof -
  let ?d = "\<lparr>f_id = ''d1'', f_parentId = None, f_name = ''docs'', f_folder = True,
      f_creation = [], f_modification = [], f_filePath = None, f_mimeType = None,
      f_size = None\<rparr>"
  let ?f = "\<lparr>f_id = ''f1'', f_parentId = None, f_name = ''a.txt'', f_folder = False,
      f_creation = [], f_modification = [], f_filePath = Some ''/a.txt'',
      f_mimeType = Some ''text/plain'', f_size = Some 1536\<rparr>"
  have hd: "f_folder ?d" and hf: "\<not> f_folder ?f" by simp_all
  note td = openItem_effect [where item = ?d and w = init]
  note tf = openItem_effect [where item = ?f and w = init and blob = "[104, 105]"]
  from td hd have "currentParentId (openItem ?d init) = Some (f_id ?d)" by blast
  then have 1: "currentParentId (openItem ?d init) = Some ''d1''" by simp
  from tf hf have "currentParentId (openItem ?f init) = currentParentId init"
    and "http (openItem ?f init) = http init @ [GetItemBlob (f_id ?f)]" by blast+
  then have 2: "currentParentId (openItem ?f init) = None"
    and 3: "http (openItem ?f init) = [GetItemBlob ''f1'']" by (simp_all add: init_def)
  have "downloadItem_next ?f [104, 105] init \<in>
      {downloadItem ?f init, downloadItem_next ?f [104, 105] init, downloadItem_error e init}"
    for e by simp
  with tf have 4: "path (downloadItem_next ?f [104, 105] init) = path init" by blast
  from hd hf 1 2 3 4 show ?thesis by blast
qed

end
